theory Spec2Isabelle
  imports Complex_Main
begin

section \<open>The double bottom detection agent (agent.js)\<close>

text \<open>
  A shallow embedding of \<^verbatim>\<open>src/agent.js\<close>. The inputs of the agent (prices, timestamps,
  market figures) are JavaScript numbers read from JSON; they are modelled as reals, so
  the rounding of IEEE doubles is not part of the model. The non-finite values that
  JavaScript computes from finite operands are part of it: a division by zero gives
  \<^verbatim>\<open>Infinity\<close>, \<^verbatim>\<open>-Infinity\<close> or \<^verbatim>\<open>NaN\<close> and never raises, and \<^verbatim>\<open>Math.max()\<close> of
  no argument is \<^verbatim>\<open>-Infinity\<close>.
\<close>

subsection \<open>JavaScript numbers\<close>

datatype jsnum = Num real | PosInfinity | NegInfinity | NaN

text \<open>\<^verbatim>\<open>a < b\<close>: false whenever an operand is \<^verbatim>\<open>NaN\<close>.\<close>

fun js_lt :: "jsnum \<Rightarrow> jsnum \<Rightarrow> bool" where
  "js_lt NaN b = False"
| "js_lt a NaN = False"
| "js_lt (Num x) (Num y) = (x < y)"
| "js_lt (Num x) PosInfinity = True"
| "js_lt (Num x) NegInfinity = False"
| "js_lt PosInfinity b = False"
| "js_lt NegInfinity NegInfinity = False"
| "js_lt NegInfinity b = True"

text \<open>\<^verbatim>\<open>a <= b\<close>, and \<^verbatim>\<open>a >= b\<close> as \<^verbatim>\<open>b <= a\<close>.\<close>

fun js_le :: "jsnum \<Rightarrow> jsnum \<Rightarrow> bool" where
  "js_le NaN b = False"
| "js_le a NaN = False"
| "js_le (Num x) (Num y) = (x \<le> y)"
| "js_le (Num x) PosInfinity = True"
| "js_le (Num x) NegInfinity = False"
| "js_le PosInfinity PosInfinity = True"
| "js_le PosInfinity b = False"
| "js_le NegInfinity b = True"

definition js_ge :: "jsnum \<Rightarrow> jsnum \<Rightarrow> bool" where
  "js_ge a b = js_le b a"

text \<open>\<^verbatim>\<open>x / y\<close> on finite operands (the reals have one zero, so \<^verbatim>\<open>-0\<close> is not modelled).\<close>

definition js_div :: "real \<Rightarrow> real \<Rightarrow> jsnum" where
  "js_div x y =
     (if y \<noteq> 0 then Num (x / y)
      else if 0 < x then PosInfinity
      else if x < 0 then NegInfinity
      else NaN)"

text \<open>\<^verbatim>\<open>a * c\<close> for a finite factor \<^verbatim>\<open>c\<close>.\<close>

fun js_mul :: "jsnum \<Rightarrow> real \<Rightarrow> jsnum" where
  "js_mul (Num x) c = Num (x * c)"
| "js_mul NaN c = NaN"
| "js_mul PosInfinity c = (if 0 < c then PosInfinity else if c < 0 then NegInfinity else NaN)"
| "js_mul NegInfinity c = (if 0 < c then NegInfinity else if c < 0 then PosInfinity else NaN)"

text \<open>\<^verbatim>\<open>a - b\<close>.\<close>

fun js_sub :: "jsnum \<Rightarrow> jsnum \<Rightarrow> jsnum" where
  "js_sub NaN b = NaN"
| "js_sub a NaN = NaN"
| "js_sub (Num x) (Num y) = Num (x - y)"
| "js_sub (Num x) PosInfinity = NegInfinity"
| "js_sub (Num x) NegInfinity = PosInfinity"
| "js_sub PosInfinity PosInfinity = NaN"
| "js_sub PosInfinity b = PosInfinity"
| "js_sub NegInfinity NegInfinity = NaN"
| "js_sub NegInfinity b = NegInfinity"

text \<open>\<^verbatim>\<open>Math.abs(a)\<close>.\<close>

fun Math_abs :: "jsnum \<Rightarrow> jsnum" where
  "Math_abs (Num x) = Num \<bar>x\<bar>"
| "Math_abs PosInfinity = PosInfinity"
| "Math_abs NegInfinity = PosInfinity"
| "Math_abs NaN = NaN"

text \<open>\<^verbatim>\<open>Math.max(...xs)\<close> on finite arguments: \<^verbatim>\<open>-Infinity\<close> when there is none.\<close>

fun js_max :: "jsnum \<Rightarrow> jsnum \<Rightarrow> jsnum" where
  "js_max NaN b = NaN"
| "js_max a NaN = NaN"
| "js_max a b = (if js_lt a b then b else a)"

primrec Math_max :: "real list \<Rightarrow> jsnum" where
  "Math_max [] = NegInfinity"
| "Math_max (x # xs) = js_max (Num x) (Math_max xs)"

subsection \<open>Arrays\<close>

text \<open>
  \<^verbatim>\<open>xs.slice(start, end)\<close>: a negative bound counts from the end of the array, both
  bounds are clipped to the array, and the result is empty when the bounds cross.
  \<^verbatim>\<open>xs.slice(start)\<close> is \<^verbatim>\<open>xs.slice(start, xs.length)\<close>.
\<close>

definition slice :: "'a list \<Rightarrow> int \<Rightarrow> int \<Rightarrow> 'a list" where
  "slice xs start end' =
     (let len = int (length xs);
          k = (if start < 0 then max (len + start) 0 else min start len);
          final = (if end' < 0 then max (len + end') 0 else min end' len)
      in take (nat (final - k)) (drop (nat k) xs))"

definition slice_from :: "'a list \<Rightarrow> int \<Rightarrow> 'a list" where
  "slice_from xs start = slice xs start (int (length xs))"

subsection \<open>Configuration and data\<close>

record timeBetweenBottoms =
  min_days :: real
  max_days :: real

record config =
  minVolume :: real
  minMarketCap :: real
  timeframe :: string
  tolerance :: real
  timeBetweenBottoms :: timeBetweenBottoms
  checkInterval :: nat

definition CONFIG :: config where
  "CONFIG =
     \<lparr>minVolume = 1000000, minMarketCap = 40000000, timeframe = ''4h'',
      tolerance = 20 / 100,
      timeBetweenBottoms = \<lparr>min_days = 21, max_days = 42\<rparr>,
      checkInterval = 1800000\<rparr>"

text \<open>A point of the price history is the array \<^verbatim>\<open>[timestamp, price]\<close>.\<close>

type_synonym pricePoint = "real \<times> real"

record bottom =
  timestamp :: real
  price :: real
  index :: nat

record pattern =
  firstBottom :: bottom
  secondBottom :: bottom
  neckline :: jsnum
  depth :: jsnum
  timespan :: real

text \<open>An entry of the markets list, with the fields the agent reads.\<close>

record crypto =
  crypto_id :: string
  symbol :: string
  current_price :: real
  market_cap :: real
  total_volume :: real

subsection \<open>MLPredictor\<close>

record learning =
  pattern_of :: pattern
  outcome :: string

record MLPredictor =
  history :: "learning list"
  successRate :: jsnum

definition new_MLPredictor :: MLPredictor where
  "new_MLPredictor = \<lparr>history = [], successRate = Num 0\<rparr>"



definition predict :: "MLPredictor \<Rightarrow> pattern \<Rightarrow> real" where
  "predict this p =
     (let similarPatterns =
            filter (\<lambda>h. js_lt (Math_abs (js_sub (depth (pattern_of h)) (depth p))) (Num (1 / 10)))
              (history this)
      in if length similarPatterns = 0 then 1 / 2
         else
           (let successCount = length (filter (\<lambda>p. outcome p = ''success'') similarPatterns)
            in real successCount / real (length similarPatterns)))"

subsection \<open>findBottoms\<close>

text \<open>
  The loop \<^verbatim>\<open>for (let i = 10; i < priceData.length - 10; i++)\<close>, with the array of the
  bottoms found so far. The bound \<^verbatim>\<open>priceData.length - 10\<close> is negative on a short array.
\<close>

function findBottoms_loop :: "pricePoint list \<Rightarrow> nat \<Rightarrow> bottom list \<Rightarrow> bottom list" where
  "findBottoms_loop priceData i bottoms =
     (if int i < int (length priceData) - 10 then
        (let current = snd (priceData ! i);
             isBottom =
               (list_all (\<lambda>p. snd p \<ge> current) (slice priceData (int i - 10) (int i)) \<and>
                list_all (\<lambda>p. snd p \<ge> current) (slice priceData (int i + 1) (int i + 11)))
         in findBottoms_loop priceData (i + 1)
              (if isBottom
               then bottoms @ [\<lparr>timestamp = fst (priceData ! i), price = current, index = i\<rparr>]
               else bottoms))
      else bottoms)"
  by pat_completeness auto
termination
  by (relation "measure (\<lambda>(priceData, i, bottoms). length priceData - i)") auto

definition findBottoms :: "pricePoint list \<Rightarrow> bottom list" where
  "findBottoms priceData = findBottoms_loop priceData 10 []"

subsection \<open>calculateNeckline\<close>

definition calculateNeckline :: "pricePoint list \<Rightarrow> bottom \<Rightarrow> bottom \<Rightarrow> jsnum" where
  "calculateNeckline priceData first second =
     (let between = slice priceData (int (index first)) (int (index second))
      in Math_max (map snd between))"

subsection \<open>analyzeCrypto\<close>

text \<open>
  The result \<^verbatim>\<open>{hasDoubleBottom: true, pattern: ...}\<close> is \<open>Some\<close> of the pattern, the result
  \<^verbatim>\<open>{hasDoubleBottom: false}\<close> is \<open>None\<close>. \<open>validate\<close> is the part of \<^verbatim>\<open>analyzeCrypto\<close> after
  the bottoms are found (the pattern validator): it destructures \<^verbatim>\<open>bottoms.slice(-2)\<close>, which
  has two elements whenever \<^verbatim>\<open>bottoms.length >= 2\<close>, so the last case below is never
  reached.
\<close>

definition validate :: "pricePoint list \<Rightarrow> bottom list \<Rightarrow> pattern option" where
  "validate priceData bottoms =
     (if length bottoms \<ge> 2 then
        (case slice_from bottoms (- 2) of
           [first, second] \<Rightarrow>
             (let priceDiff = js_div \<bar>price first - price second\<bar> (price first);
                  timeDiff = (timestamp second - timestamp first) / (1000 * 60 * 60 * 24)
              in if js_le priceDiff (Num (tolerance CONFIG)) \<and>
                    timeDiff \<ge> min_days (timeBetweenBottoms CONFIG) \<and>
                    timeDiff \<le> max_days (timeBetweenBottoms CONFIG)
                 then Some \<lparr>firstBottom = first, secondBottom = second,
                        neckline = calculateNeckline priceData first second,
                        depth = priceDiff, timespan = timeDiff\<rparr>
                 else None)
         | _ \<Rightarrow> None)
      else None)"

text \<open>
  \<^verbatim>\<open>getPriceHistory\<close> fetches from the network: its outcome for each asset is a parameter,
  \<open>Inl\<close> an error raised while the history is fetched and read (a failed request, a body
  that is not JSON or that has no price array).
\<close>

definition analyzeCrypto ::
  "(string \<Rightarrow> 'e + pricePoint list) \<Rightarrow> crypto \<Rightarrow> 'e + pattern option" where
  "analyzeCrypto getPriceHistory c =
     (case getPriceHistory (crypto_id c) of
        Inl e \<Rightarrow> Inl e
      | Inr priceData \<Rightarrow> Inr (validate priceData (findBottoms priceData)))"

subsection \<open>sendAlert\<close>

text \<open>
  The alert type chosen by the chain of conditions of \<^verbatim>\<open>sendAlert\<close>: \<open>YELLOW\<close> is
  \<^verbatim>\<open>'ALERTA AMARELO'\<close>, \<open>ORANGE\<close> is \<^verbatim>\<open>'ALERTA LARANJA'\<close>, \<open>RED\<close> is \<^verbatim>\<open>'ALERTA VERMELHO'\<close>, and
  \<open>NONE\<close> is the variable left \<^verbatim>\<open>undefined\<close> when no condition holds. The conjunct
  \<^verbatim>\<open>pattern.secondBottom\<close> of the second condition is an object, hence true.
\<close>

datatype alertType = YELLOW | ORANGE | RED | NONE

definition alertTier :: "real \<Rightarrow> pattern \<Rightarrow> alertType" where
  "alertTier currentPrice p =
     (if currentPrice < price (secondBottom p) * (105 / 100) then YELLOW
      else if js_lt (Num currentPrice) (js_mul (neckline p) (95 / 100)) then ORANGE
      else if js_ge (Num currentPrice) (js_mul (neckline p) (95 / 100)) then RED
      else NONE)"

text \<open>
  The alert, as the alert type, the asset, the pattern, the stop loss and the confidence
  that its text is rendered from; the potential gain, which only appears in that text,
  and the rendering itself (number and date formats) are not modelled. \<^verbatim>\<open>console.log\<close>
  and \<^verbatim>\<open>console.error\<close> append to the console, which is part of the state together with
  the predictor \<^verbatim>\<open>ml\<close>.
\<close>

record alert =
  alert_type :: alertType
  asset :: crypto
  alert_pattern :: pattern
  stopLoss :: real
  confidence :: real

datatype 'e console_line = Log alert | Error 'e

record 'e state =
  console :: "'e console_line list"
  ml :: MLPredictor

definition sendAlert :: "crypto \<Rightarrow> pattern \<Rightarrow> real \<Rightarrow> 'e state \<Rightarrow> alert \<times> 'e state" where
  "sendAlert c p conf s =
     (let currentPrice = current_price c;
          a = \<lparr>alert_type = alertTier currentPrice p, asset = c, alert_pattern = p,
               stopLoss = price (secondBottom p) * (95 / 100), confidence = conf\<rparr>
      in (a, s\<lparr>console := console s @ [Log a]\<rparr>))"

subsection \<open>detectDoubleBottom\<close>

text \<open>The response of the markets request is a parameter, \<open>Inl\<close> an error it raises.\<close>

definition getEligibleCryptos :: "'e + crypto list \<Rightarrow> 'e + crypto list" where
  "getEligibleCryptos response =
     (case response of
        Inl e \<Rightarrow> Inl e
      | Inr data \<Rightarrow>
          Inr (filter (\<lambda>c. total_volume c \<ge> minVolume CONFIG \<and> market_cap c \<ge> minMarketCap CONFIG)
                 data))"

text \<open>
  The loop over the eligible assets. A statement ends normally (\<open>Inr ()\<close>) or raises
  (\<open>Inl e\<close>); a raise leaves the loop at once, with the state as it is.
\<close>

fun forCryptos ::
  "(string \<Rightarrow> 'e + pricePoint list) \<Rightarrow> crypto list \<Rightarrow> 'e state \<Rightarrow> ('e + unit) \<times> 'e state" where
  "forCryptos getPriceHistory [] s = (Inr (), s)"
| "forCryptos getPriceHistory (c # cs) s =
     (case analyzeCrypto getPriceHistory c of
        Inl e \<Rightarrow> (Inl e, s)
      | Inr None \<Rightarrow> forCryptos getPriceHistory cs s
      | Inr (Some p) \<Rightarrow>
          (let conf = predict (ml s) p;
               (a, s') = sendAlert c p conf s
           in forCryptos getPriceHistory cs s'))"

text \<open>The body of the \<^verbatim>\<open>try\<close> block, and the function with its \<^verbatim>\<open>catch\<close>.\<close>

definition detect_body ::
  "'e + crypto list \<Rightarrow> (string \<Rightarrow> 'e + pricePoint list) \<Rightarrow> 'e state \<Rightarrow> ('e + unit) \<times> 'e state" where
  "detect_body response getPriceHistory s =
     (case getEligibleCryptos response of
        Inl e \<Rightarrow> (Inl e, s)
      | Inr eligibleCryptos \<Rightarrow> forCryptos getPriceHistory eligibleCryptos s)"

definition detectDoubleBottom ::
  "'e + crypto list \<Rightarrow> (string \<Rightarrow> 'e + pricePoint list) \<Rightarrow> 'e state \<Rightarrow> ('e + unit) \<times> 'e state" where
  "detectDoubleBottom response getPriceHistory s =
     (case detect_body response getPriceHistory s of
        (Inl error, s') \<Rightarrow> (Inr (), s'\<lparr>console := console s' @ [Error error]\<rparr>)
      | (Inr u, s') \<Rightarrow> (Inr (), s'))"

subsection \<open>Auxiliary notions and example data\<close>

text \<open>
  The bottom that \<^verbatim>\<open>findBottoms\<close> pushes for index \<open>i\<close>, and the condition under which it
  does, written over indices: the price at \<open>i\<close> is at most each of the ten prices before
  it and each of the ten prices after it.
\<close>

definition mkBottom :: "pricePoint list \<Rightarrow> nat \<Rightarrow> bottom" where
  "mkBottom ps i = \<lparr>timestamp = fst (ps ! i), price = snd (ps ! i), index = i\<rparr>"

definition isBottomAt :: "pricePoint list \<Rightarrow> nat \<Rightarrow> bool" where
  "isBottomAt ps i \<longleftrightarrow>
     list_all (\<lambda>j. snd (ps ! i) \<le> snd (ps ! j)) [i - 10..<i] \<and>
     list_all (\<lambda>j. snd (ps ! i) \<le> snd (ps ! j)) [i + 1..<i + 11]"


text \<open>Example inputs.\<close>

definition example_pattern :: pattern where
  "example_pattern =
     \<lparr>firstBottom = \<lparr>timestamp = 0, price = 88, index = 10\<rparr>,
      secondBottom = \<lparr>timestamp = 2592000000, price = 90, index = 190\<rparr>,
      neckline = Num 100, depth = Num (1 / 44), timespan = 30\<rparr>"

definition v_prices :: "pricePoint list" where
  "v_prices =
     [(0, 10), (1, 9), (2, 8), (3, 7), (4, 6), (5, 5), (6, 4), (7, 3), (8, 2), (9, 1),
      (10, 0), (11, 1), (12, 2), (13, 3), (14, 4), (15, 5), (16, 6), (17, 7), (18, 8),
      (19, 9), (20, 10)]"

definition span_prices :: "pricePoint list" where
  "span_prices = [(0, 90), (1, 95), (2, 110), (3, 92), (4, 91)]"

text \<open>Bottoms 30 days and 10 days apart, one of price zero, and a flat series.\<close>

definition b100 :: bottom where
  "b100 = \<lparr>timestamp = 0, price = 100, index = 0\<rparr>"

definition b108 :: bottom where
  "b108 = \<lparr>timestamp = 2592000000, price = 108, index = 2\<rparr>"




definition three_prices :: "pricePoint list" where
  "three_prices = [(0, 100), (864000000, 120), (2592000000, 108)]"


definition flat_prices :: "pricePoint list" where
  "flat_prices =
     [(0, 100), (2592000000, 100), (5184000000, 100), (7776000000, 100),
      (10368000000, 100), (12960000000, 100), (15552000000, 100), (18144000000, 100),
      (20736000000, 100), (23328000000, 100), (25920000000, 100), (28512000000, 100),
      (31104000000, 100), (33696000000, 100), (36288000000, 100), (38880000000, 100),
      (41472000000, 100), (44064000000, 100), (46656000000, 100), (49248000000, 100),
      (51840000000, 100), (54432000000, 100)]"




text \<open>
  A detection cycle: three assets pass the volume and market cap filter, the history of
  the second one cannot be fetched.
\<close>

definition good_crypto :: crypto where
  "good_crypto =
     \<lparr>crypto_id = ''good'', symbol = ''gd'', current_price = 110, market_cap = 50000000,
      total_volume = 2000000\<rparr>"

definition bad_crypto :: crypto where
  "bad_crypto =
     \<lparr>crypto_id = ''bad'', symbol = ''bd'', current_price = 110, market_cap = 50000000,
      total_volume = 2000000\<rparr>"

definition small_crypto :: crypto where
  "small_crypto =
     \<lparr>crypto_id = ''small'', symbol = ''sm'', current_price = 1, market_cap = 1000,
      total_volume = 10\<rparr>"

definition example_history :: "string \<Rightarrow> string + pricePoint list" where
  "example_history i = (if i = ''good'' then Inr flat_prices else Inl ''fetch failed'')"

definition flat_pattern :: pattern where
  "flat_pattern =
     \<lparr>firstBottom = \<lparr>timestamp = 25920000000, price = 100, index = 10\<rparr>,
      secondBottom = \<lparr>timestamp = 28512000000, price = 100, index = 11\<rparr>,
      neckline = Num 100, depth = Num 0, timespan = 30\<rparr>"

definition good_alert :: alert where
  "good_alert =
     \<lparr>alert_type = RED, asset = good_crypto, alert_pattern = flat_pattern, stopLoss = 95,
      confidence = 1 / 2\<rparr>"

definition empty_state :: "string state" where
  "empty_state = \<lparr>console = [], ml = new_MLPredictor\<rparr>"

definition example_response :: "string + crypto list" where
  "example_response = Inr [small_crypto, good_crypto, bad_crypto, good_crypto]"

section \<open>Properties\<close>

declare findBottoms_loop.simps [simp del]

subsection \<open>Numbers and arrays\<close>

lemma js_ge_or_lt: "b \<noteq> NaN \<Longrightarrow> js_lt (Num c) b \<or> js_ge (Num c) b"
  by (cases b) (auto simp: js_ge_def)

lemma js_mul_not_NaN: "a \<noteq> NaN \<Longrightarrow> 0 < c \<Longrightarrow> js_mul a c \<noteq> NaN"
  by (cases a) auto

lemma slice_nat: "slice xs (int a) (int b) = drop a (take b xs)"
  by (auto simp: slice_def Let_def drop_take min_def nat_diff_distrib' not_le)

lemma list_all_slice:
  "list_all P (slice xs (int a) (int b)) \<longleftrightarrow> (\<forall>j. a \<le> j \<and> j < b \<and> j < length xs \<longrightarrow> P (xs ! j))"
proof -
  have "list_all P (drop a (take b xs)) \<longleftrightarrow> (\<forall>k < length (drop a (take b xs)). P (drop a (take b xs) ! k))"
    by (simp add: list_all_length)
  also have "\<dots> \<longleftrightarrow> (\<forall>j. a \<le> j \<and> j < b \<and> j < length xs \<longrightarrow> P (xs ! j))"
  proof safe
    fix j assume h: "\<forall>k < length (drop a (take b xs)). P (drop a (take b xs) ! k)" and "a \<le> j" "j < b" "j < length xs"
    then have "j - a < length (drop a (take b xs))" by auto
    with h have "P (drop a (take b xs) ! (j - a))" by blast
    with \<open>a \<le> j\<close> \<open>j < b\<close> \<open>j < length xs\<close> show "P (xs ! j)" by simp
  next
    fix k assume h: "\<forall>j. a \<le> j \<and> j < b \<and> j < length xs \<longrightarrow> P (xs ! j)" and "k < length (drop a (take b xs))"
    then have k: "a + k < b" "a + k < length xs" by auto
    then have "drop a (take b xs) ! k = xs ! (a + k)" by simp
    with h k show "P (drop a (take b xs) ! k)" by simp
  qed
  finally show ?thesis by (simp add: slice_nat)
qed


lemma Math_max_Max: "xs \<noteq> [] \<Longrightarrow> Math_max xs = Num (Max (set xs))"
proof (induction xs)
  case Nil
  then show ?case by simp
next
  case (Cons x xs)
  show ?case
  proof (cases "xs = []")
    case True
    then show ?thesis by simp
  next
    case False
    with Cons.IH have "Math_max xs = Num (Max (set xs))" by simp
    with False show ?thesis by (simp add: max_def)
  qed
qed

lemma set_drop_take:
  "set (drop a (take b xs)) = {xs ! j | j. a \<le> j \<and> j < b \<and> j < length xs}"
proof (rule set_eqI)
  fix x
  let ?ys = "drop a (take b xs)"
  show "x \<in> set ?ys \<longleftrightarrow> x \<in> {xs ! j | j. a \<le> j \<and> j < b \<and> j < length xs}"
  proof
    assume "x \<in> set ?ys"
    then obtain k where k: "k < length ?ys" and x: "?ys ! k = x"
      by (auto simp: in_set_conv_nth)
    from k have bounds: "a + k < b" "a + k < length xs" by auto
    then have "?ys ! k = xs ! (a + k)" by simp
    with x bounds show "x \<in> {xs ! j | j. a \<le> j \<and> j < b \<and> j < length xs}"
      by (intro CollectI exI [of _ "a + k"]) simp
  next
    assume "x \<in> {xs ! j | j. a \<le> j \<and> j < b \<and> j < length xs}"
    then obtain j where j: "a \<le> j" "j < b" "j < length xs" and x: "x = xs ! j" by blast
    from j have "j - a < length ?ys" by auto
    moreover from j have "?ys ! (j - a) = xs ! j" by simp
    ultimately show "x \<in> set ?ys" using x by (metis nth_mem)
  qed
qed

lemma Math_max_not_NaN: "Math_max xs \<noteq> NaN \<and> Math_max xs \<noteq> PosInfinity"
proof (induction xs)
  case Nil
  show ?case by simp
next
  case (Cons x xs)
  then show ?case by (cases "Math_max xs") simp_all
qed



subsection \<open>The bottom detector\<close>

lemma isBottomAt_iff:
  "isBottomAt ps i \<longleftrightarrow>
     (\<forall>j. i - 10 \<le> j \<and> j < i \<longrightarrow> snd (ps ! i) \<le> snd (ps ! j)) \<and>
     (\<forall>j. i < j \<and> j \<le> i + 10 \<longrightarrow> snd (ps ! i) \<le> snd (ps ! j))"
  by (auto simp: isBottomAt_def list_all_iff)

lemma windows_isBottomAt:
  assumes "10 \<le> i" and "i + 10 < length ps"
  shows "(list_all (\<lambda>p. snd p \<ge> snd (ps ! i)) (slice ps (int i - 10) (int i)) \<and>
          list_all (\<lambda>p. snd p \<ge> snd (ps ! i)) (slice ps (int i + 1) (int i + 11)))
         \<longleftrightarrow> isBottomAt ps i"
proof -
  have a: "int i - 10 = int (i - 10)" using assms by simp
  have b: "int i + 1 = int (i + 1)" "int i + 11 = int (i + 11)" by simp_all
  show ?thesis
    unfolding a b list_all_slice isBottomAt_iff using assms
    by (auto simp: Suc_le_eq less_Suc_eq_le)
qed

lemma findBottoms_loop_eq:
  "10 \<le> i \<Longrightarrow>
   findBottoms_loop ps i acc = acc @ map (mkBottom ps) (filter (isBottomAt ps) [i..<length ps - 10])"
proof (induction ps i acc rule: findBottoms_loop.induct)
  case (1 ps i acc)
  show ?case
  proof (cases "int i < int (length ps) - 10")
    case False
    then have "[i..<length ps - 10] = []" by simp
    with False show ?thesis by (subst findBottoms_loop.simps) simp
  next
    case True
    then have lt: "i < length ps - 10" and len: "i + 10 < length ps" by linarith+
    have up: "[i..<length ps - 10] = i # [i + 1..<length ps - 10]"
      using lt by (simp add: upt_conv_Cons)
    have w: "(list_all (\<lambda>p. snd p \<ge> snd (ps ! i)) (slice ps (int i - 10) (int i)) \<and>
          list_all (\<lambda>p. snd p \<ge> snd (ps ! i)) (slice ps (int i + 1) (int i + 11)))
         \<longleftrightarrow> isBottomAt ps i"
      using windows_isBottomAt [OF "1.prems" len] .
    have ten: "10 \<le> i + 1" using "1.prems" by simp
    note ih = "1.IH" [OF True refl refl ten]
    show ?thesis
      apply (subst findBottoms_loop.simps)
      using True w ih up
      by (simp add: Let_def mkBottom_def)
  qed
qed

lemma findBottoms_eq:
  "findBottoms ps = map (mkBottom ps) (filter (isBottomAt ps) [10..<length ps - 10])"
  by (simp add: findBottoms_def findBottoms_loop_eq)


lemma sorted_wrt_map_filter_upt:
  "sorted_wrt (<) (filter P [a..<b])"
  by (rule sorted_wrt_filter) simp

lemma index_mkBottom: "index (mkBottom ps i) = i"
  by (simp add: mkBottom_def)

lemma map_index_findBottoms:
  "map index (findBottoms ps) = filter (isBottomAt ps) [10..<length ps - 10]"
  by (simp add: findBottoms_eq comp_def index_mkBottom)

lemma mkBottom_inj: "mkBottom ps i = mkBottom ps j \<longleftrightarrow> i = j"
  by (auto simp: mkBottom_def)

text \<open>
  Claim C2. \<^verbatim>\<open>findBottoms\<close> reports the index \<open>i\<close> (as the bottom with the timestamp and
  price of point \<open>i\<close>) if and only if \<open>i\<close> has at least ten points before it and ten
  after it and its price is at most every price among the ten points before it and among
  the ten points after it. Every reported bottom is the point at its index, the reported
  indices ascend strictly (so the timestamps ascend when those of the input do), and an
  input of fewer than 21 points gives no bottom.
\<close>

theorem findBottoms_spec:
  "(\<lparr>timestamp = fst (ps ! i), price = snd (ps ! i), index = i\<rparr> \<in> set (findBottoms ps) \<longleftrightarrow>
      10 \<le> i \<and> i + 10 < length ps \<and>
      (\<forall>j. i - 10 \<le> j \<and> j < i \<longrightarrow> snd (ps ! i) \<le> snd (ps ! j)) \<and>
      (\<forall>j. i < j \<and> j \<le> i + 10 \<longrightarrow> snd (ps ! i) \<le> snd (ps ! j))) \<and>
   (\<forall>b \<in> set (findBottoms ps).
      b = \<lparr>timestamp = fst (ps ! index b), price = snd (ps ! index b), index = index b\<rparr>) \<and>
   sorted_wrt (<) (map index (findBottoms ps)) \<and>
   (sorted_wrt (<) (map fst ps) \<longrightarrow> sorted_wrt (<) (map timestamp (findBottoms ps))) \<and>
   (length ps < 21 \<longrightarrow> findBottoms ps = [])"
proof (intro conjI)
  have "mkBottom ps i \<in> set (findBottoms ps) \<longleftrightarrow> i \<in> set (filter (isBottomAt ps) [10..<length ps - 10])"
    unfolding findBottoms_eq set_map by (auto simp: mkBottom_inj)
  then show "\<lparr>timestamp = fst (ps ! i), price = snd (ps ! i), index = i\<rparr> \<in> set (findBottoms ps) \<longleftrightarrow>
      10 \<le> i \<and> i + 10 < length ps \<and>
      (\<forall>j. i - 10 \<le> j \<and> j < i \<longrightarrow> snd (ps ! i) \<le> snd (ps ! j)) \<and>
      (\<forall>j. i < j \<and> j \<le> i + 10 \<longrightarrow> snd (ps ! i) \<le> snd (ps ! j))"
    unfolding mkBottom_def isBottomAt_iff by (auto simp: less_diff_conv)
next
  show "\<forall>b \<in> set (findBottoms ps).
      b = \<lparr>timestamp = fst (ps ! index b), price = snd (ps ! index b), index = index b\<rparr>"
    by (auto simp: findBottoms_eq mkBottom_def)
next
  show "sorted_wrt (<) (map index (findBottoms ps))"
    by (simp add: map_index_findBottoms sorted_wrt_map_filter_upt)
next
  show "sorted_wrt (<) (map fst ps) \<longrightarrow> sorted_wrt (<) (map timestamp (findBottoms ps))"
  proof
    assume srt: "sorted_wrt (<) (map fst ps)"
    let ?is = "filter (isBottomAt ps) [10..<length ps - 10]"
    have srt_is: "sorted_wrt (<) ?is" by (rule sorted_wrt_map_filter_upt)
    have bound: "\<forall>k \<in> set ?is. k < length ps" by auto
    have "sorted_wrt (\<lambda>a b. fst (ps ! a) < fst (ps ! b)) ?is"
    proof (rule sorted_wrt_mono_rel [OF _ srt_is])
      fix a b assume "a \<in> set ?is" "b \<in> set ?is" "a < b"
      with bound have "a < b" "b < length ps" by auto
      with srt show "fst (ps ! a) < fst (ps ! b)"
        by (simp add: sorted_wrt_iff_nth_less)
    qed
    then show "sorted_wrt (<) (map timestamp (findBottoms ps))"
      by (simp add: findBottoms_eq sorted_wrt_map mkBottom_def comp_def)
  qed
next
  show "length ps < 21 \<longrightarrow> findBottoms ps = []"
    by (simp add: findBottoms_eq)
qed

theorem findBottoms_spec_witness:
  "\<lparr>timestamp = fst (v_prices ! 10), price = snd (v_prices ! 10), index = 10\<rparr>
     \<in> set (findBottoms v_prices) \<and>
   findBottoms v_prices = [\<lparr>timestamp = 10, price = 0, index = 10\<rparr>] \<and>
   sorted_wrt (<) (map fst v_prices) \<and>
   sorted_wrt (<) (map timestamp (findBottoms v_prices)) \<and>
   length (take 20 v_prices) < 21 \<and> findBottoms (take 20 v_prices) = []"
proof -
  have v: "findBottoms v_prices = [\<lparr>timestamp = 10, price = 0, index = 10\<rparr>]"
    by (simp add: v_prices_def findBottoms_def findBottoms_loop.simps slice_def)
  have s: "sorted_wrt (<) (map fst v_prices)"
    by (simp add: v_prices_def)
  have l: "length (take 20 v_prices) < 21"
    by (simp add: v_prices_def)
  show ?thesis
    using findBottoms_spec [of v_prices 10] findBottoms_spec [of "take 20 v_prices" 10] v s l
    by simp
qed

subsection \<open>The neckline\<close>

lemma calculateNeckline_Max:
  assumes "index first < index second" and "index first < length ps"
  shows "calculateNeckline ps first second =
     Num (Max {snd (ps ! j) | j. index first \<le> j \<and> j < index second \<and> j < length ps})"
proof -
  let ?between = "drop (index first) (take (index second) ps)"
  have ne: "map snd ?between \<noteq> []" using assms by simp
  have "set (map snd ?between) = snd ` {ps ! j | j. index first \<le> j \<and> j < index second \<and> j < length ps}"
    by (simp add: set_drop_take)
  also have "\<dots> = {snd (ps ! j) | j. index first \<le> j \<and> j < index second \<and> j < length ps}"
    by auto
  finally show ?thesis
    using Math_max_Max [OF ne] by (simp add: calculateNeckline_def slice_nat)
qed

lemma finite_span: "finite {snd (ps ! j) | j. (a::nat) \<le> j \<and> j < b \<and> j < length ps}"
proof -
  have "{snd (ps ! j) | j. a \<le> j \<and> j < b \<and> j < length ps} = (\<lambda>j. snd (ps ! j)) ` {j. a \<le> j \<and> j < b \<and> j < length ps}"
    by auto
  then show ?thesis by simp
qed

text \<open>
  Claim C4. For two bottoms with \<open>index first < index second\<close>, the first of them an index
  of the price sequence, the neckline is the maximum of the prices at the indices from
  \<open>index first\<close> up to but not including \<open>index second\<close>; hence it is at least every price
  at such an index, in particular every price strictly between the two bottoms. For the
  span of prices 90, 95, 110, 92 it is 110.
\<close>

theorem calculateNeckline_spec:
  assumes "index first < index second" and "index first < length ps"
  shows "calculateNeckline ps first second =
           Num (Max {snd (ps ! j) | j. index first \<le> j \<and> j < index second \<and> j < length ps}) \<and>
         (\<forall>j. index first \<le> j \<and> j < index second \<and> j < length ps \<longrightarrow>
              js_le (Num (snd (ps ! j))) (calculateNeckline ps first second))"
proof -
  let ?S = "{snd (ps ! j) | j. index first \<le> j \<and> j < index second \<and> j < length ps}"
  have eq: "calculateNeckline ps first second = Num (Max ?S)"
    using calculateNeckline_Max [OF assms] .
  have "snd (ps ! j) \<le> Max ?S" if "index first \<le> j" "j < index second" "j < length ps" for j
    using that by (intro Max_ge finite_span) auto
  with eq show ?thesis by simp
qed

theorem calculateNeckline_spec_witness:
  "index \<lparr>timestamp = 0, price = 90, index = 0\<rparr> < index \<lparr>timestamp = 4, price = 91, index = 4\<rparr> \<and>
   index \<lparr>timestamp = 0, price = 90, index = 0\<rparr> < length span_prices \<and>
   calculateNeckline span_prices \<lparr>timestamp = 0, price = 90, index = 0\<rparr>
     \<lparr>timestamp = 4, price = 91, index = 4\<rparr> = Num 110 \<and>
   js_le (Num (snd (span_prices ! 3)))
     (calculateNeckline span_prices \<lparr>timestamp = 0, price = 90, index = 0\<rparr>
        \<lparr>timestamp = 4, price = 91, index = 4\<rparr>)"
proof -
  have n: "calculateNeckline span_prices \<lparr>timestamp = 0, price = 90, index = 0\<rparr>
     \<lparr>timestamp = 4, price = 91, index = 4\<rparr> = Num 110"
    by (simp add: calculateNeckline_def span_prices_def slice_def)
  show ?thesis
    using calculateNeckline_spec [of "\<lparr>timestamp = 0, price = 90, index = 0\<rparr>"
        "\<lparr>timestamp = 4, price = 91, index = 4\<rparr>" span_prices] n
    by (simp add: span_prices_def)
qed

lemma findBottoms_flat:
  "findBottoms flat_prices =
     [\<lparr>timestamp = 25920000000, price = 100, index = 10\<rparr>,
      \<lparr>timestamp = 28512000000, price = 100, index = 11\<rparr>]"
  by (simp add: flat_prices_def findBottoms_def findBottoms_loop.simps slice_def)



subsection \<open>The pattern validator\<close>

lemma slice_from_last_two: "slice_from (earlier @ [first, second]) (- 2) = [first, second]"
  by (simp add: slice_from_def slice_def Let_def nat_add_distrib)

lemma validate_last_two:
  "validate ps (earlier @ [first, second]) =
     (if js_le (js_div \<bar>price first - price second\<bar> (price first)) (Num (20 / 100)) \<and>
         21 \<le> (timestamp second - timestamp first) / 86400000 \<and>
         (timestamp second - timestamp first) / 86400000 \<le> 42
      then Some \<lparr>firstBottom = first, secondBottom = second,
             neckline = calculateNeckline ps first second,
             depth = js_div \<bar>price first - price second\<bar> (price first),
             timespan = (timestamp second - timestamp first) / 86400000\<rparr>
      else None)"
  by (simp add: validate_def slice_from_last_two CONFIG_def Let_def)



text \<open>
  Claim C6, as the spec states it: for bottoms priced 100 and 108, 30 days apart, the
  pattern has a depth of about 0.0741. It fails: the depth is \<open>|100 - 108| / 100 = 0.08\<close>,
  which does not round to 0.0741 (that is \<open>8 / 108\<close>, the difference relative to the
  second bottom).
\<close>

theorem validate_example_counterexample:
  "map_option depth (validate three_prices [b100, b108]) = Some (Num (8 / 100)) \<and>
   \<not> \<bar>(8 / 100 :: real) - 741 / 10000\<bar> \<le> 1 / 20000"
  using validate_last_two [of three_prices "[]" b100 b108]
  by (simp add: b100_def b108_def js_div_def)

text \<open>
  Claim C6, amended. For two bottoms priced 100 and 108, in that order and exactly 30 days
  apart, the validator accepts, and the pattern has depth 0.08 and a timespan of 30 days.
\<close>

theorem validate_example:
  assumes "price first = 100" and "price second = 108"
    and "timestamp second - timestamp first = 30 * 86400000"
  shows "validate ps (earlier @ [first, second]) =
     Some \<lparr>firstBottom = first, secondBottom = second,
           neckline = calculateNeckline ps first second,
           depth = Num (8 / 100), timespan = 30\<rparr>"
  using assms by (simp add: validate_last_two js_div_def)

theorem validate_example_witness:
  "price b100 = 100 \<and> price b108 = 108 \<and> timestamp b108 - timestamp b100 = 30 * 86400000 \<and>
   validate three_prices ([] @ [b100, b108]) =
     Some \<lparr>firstBottom = b100, secondBottom = b108, neckline = Num 120,
           depth = Num (8 / 100), timespan = 30\<rparr>"
proof -
  have h: "price b100 = 100" "price b108 = 108" "timestamp b108 - timestamp b100 = 30 * 86400000"
    by (simp_all add: b100_def b108_def)
  have n: "calculateNeckline three_prices b100 b108 = Num 120"
    by (simp add: calculateNeckline_def slice_def three_prices_def b100_def b108_def)
  show ?thesis
    using validate_example [OF h, of three_prices "[]"] h n by simp
qed

lemma calculateNeckline_not_NaN: "calculateNeckline ps first second \<noteq> NaN"
  by (simp add: calculateNeckline_def Math_max_not_NaN)

lemma validate_Some_neckline:
  assumes "validate ps bottoms = Some p"
  shows "neckline p = calculateNeckline ps (firstBottom p) (secondBottom p)"
  using assms
  by (auto simp: validate_def Let_def split: if_splits list.splits)

subsection \<open>The alert type\<close>

text \<open>
  Claim C7. For every real current price and every pattern whose neckline is not \<^verbatim>\<open>NaN\<close>,
  one of the three conditions of \<^verbatim>\<open>sendAlert\<close> holds, so the alert type is never left
  undefined. The neckline of a pattern that the validator returns is \<^verbatim>\<open>Math.max\<close> of real
  prices, which is never \<^verbatim>\<open>NaN\<close>: for such a pattern the alert type is always defined.
\<close>

theorem alertTier_exhaustive:
  "(neckline p \<noteq> NaN \<longrightarrow>
      alertTier currentPrice p \<noteq> NONE \<and>
      (currentPrice < price (secondBottom p) * (105 / 100) \<or>
       js_lt (Num currentPrice) (js_mul (neckline p) (95 / 100)) \<or>
       js_ge (Num currentPrice) (js_mul (neckline p) (95 / 100)))) \<and>
   (validate ps bottoms = Some p \<longrightarrow> alertTier currentPrice p \<noteq> NONE)"
proof -
  have a: "alertTier currentPrice p \<noteq> NONE \<and>
      (currentPrice < price (secondBottom p) * (105 / 100) \<or>
       js_lt (Num currentPrice) (js_mul (neckline p) (95 / 100)) \<or>
       js_ge (Num currentPrice) (js_mul (neckline p) (95 / 100)))" if "neckline p \<noteq> NaN"
    using js_ge_or_lt [OF js_mul_not_NaN [OF that, of "95 / 100"], of currentPrice]
    by (auto simp: alertTier_def)
  have "neckline p \<noteq> NaN" if "validate ps bottoms = Some p"
    using validate_Some_neckline [OF that] calculateNeckline_not_NaN by simp
  with a show ?thesis by blast
qed

theorem alertTier_exhaustive_witness:
  "neckline example_pattern \<noteq> NaN \<and> alertTier 96 example_pattern = RED \<and>
   js_ge (Num 96) (js_mul (neckline example_pattern) (95 / 100)) \<and>
   validate three_prices [b100, b108] =
     Some \<lparr>firstBottom = b100, secondBottom = b108, neckline = Num 120,
           depth = Num (8 / 100), timespan = 30\<rparr> \<and>
   alertTier 120 \<lparr>firstBottom = b100, secondBottom = b108, neckline = Num 120,
           depth = Num (8 / 100), timespan = 30\<rparr> \<noteq> NONE"
proof -
  let ?p = "\<lparr>firstBottom = b100, secondBottom = b108, neckline = Num 120,
           depth = Num (8 / 100), timespan = 30\<rparr>"
  have n: "neckline example_pattern \<noteq> NaN" by (simp add: example_pattern_def)
  have r: "alertTier 96 example_pattern = RED"
    "js_ge (Num 96) (js_mul (neckline example_pattern) (95 / 100))"
    by (simp_all add: alertTier_def example_pattern_def js_ge_def)
  have c: "calculateNeckline three_prices b100 b108 = Num 120"
    by (simp add: calculateNeckline_def slice_def three_prices_def b100_def b108_def)
  have v: "validate three_prices [b100, b108] = Some ?p"
    using validate_last_two [of three_prices "[]" b100 b108]
    by (simp add: c) (simp add: b100_def b108_def js_div_def)
  from alertTier_exhaustive [of example_pattern 96 three_prices "[b100, b108]"] n
  have "alertTier 96 example_pattern \<noteq> NONE" by blast
  moreover from alertTier_exhaustive [of ?p 120 three_prices "[b100, b108]"] v
  have "alertTier 120 ?p \<noteq> NONE" by blast
  ultimately show ?thesis using n r v by blast
qed



subsection \<open>The predictor\<close>





subsection \<open>The detection cycle\<close>

lemma forCryptos_out:
  "\<exists>r out. \<forall>s. ml s = m \<longrightarrow> forCryptos gph cs s = (r, s\<lparr>console := console s @ out\<rparr>)"
proof (induction cs)
  case Nil
  have "\<forall>s::'a state. ml s = m \<longrightarrow> forCryptos gph [] s = (Inr (), s\<lparr>console := console s @ []\<rparr>)"
    by simp
  then show ?case by blast
next
  case (Cons c cs)
  then obtain r out where ih: "\<And>s. ml s = m \<Longrightarrow> forCryptos gph cs s = (r, s\<lparr>console := console s @ out\<rparr>)"
    by blast
  show ?case
  proof (cases "analyzeCrypto gph c")
    case (Inl e)
    then have "\<forall>s::'a state. ml s = m \<longrightarrow> forCryptos gph (c # cs) s = (Inl e, s\<lparr>console := console s @ []\<rparr>)"
      by simp
    then show ?thesis by blast
  next
    case (Inr analysis)
    show ?thesis
    proof (cases analysis)
      case None
      with Inr ih have "\<forall>s. ml s = m \<longrightarrow> forCryptos gph (c # cs) s = (r, s\<lparr>console := console s @ out\<rparr>)"
        by simp
      then show ?thesis by blast
    next
      case (Some p)
      define a where "a = \<lparr>alert_type = alertTier (current_price c) p, asset = c, alert_pattern = p,
               stopLoss = price (secondBottom p) * (95 / 100), confidence = predict m p\<rparr>"
      have "forCryptos gph (c # cs) s = (r, s\<lparr>console := console s @ (Log a # out)\<rparr>)"
        if "ml s = m" for s :: "'a state"
      proof -
        have "forCryptos gph (c # cs) s = forCryptos gph cs (s\<lparr>console := console s @ [Log a]\<rparr>)"
          using Inr Some that by (simp add: sendAlert_def Let_def a_def)
        also have "\<dots> = (r, (s\<lparr>console := console s @ [Log a]\<rparr>)\<lparr>console := console (s\<lparr>console := console s @ [Log a]\<rparr>) @ out\<rparr>)"
          using that by (intro ih) simp
        finally show ?thesis by simp
      qed
      then show ?thesis by blast
    qed
  qed
qed

lemma detectDoubleBottom_out:
  "\<exists>out. \<forall>s. ml s = m \<longrightarrow>
     detectDoubleBottom response gph s = (Inr (), s\<lparr>console := console s @ out\<rparr>)"
proof (cases "getEligibleCryptos response")
  case (Inl e)
  then have "\<forall>s::'a state. ml s = m \<longrightarrow>
     detectDoubleBottom response gph s = (Inr (), s\<lparr>console := console s @ [Error e]\<rparr>)"
    by (simp add: detectDoubleBottom_def detect_body_def)
  then show ?thesis by blast
next
  case (Inr cs)
  obtain r out where f: "\<And>s::'a state. ml s = m \<Longrightarrow> forCryptos gph cs s = (r, s\<lparr>console := console s @ out\<rparr>)"
    using forCryptos_out [of m gph cs] by blast
  show ?thesis
  proof (cases r)
    case (Inl e)
    with Inr f have "\<forall>s::'a state. ml s = m \<longrightarrow>
       detectDoubleBottom response gph s = (Inr (), s\<lparr>console := console s @ (out @ [Error e])\<rparr>)"
      by (simp add: detectDoubleBottom_def detect_body_def)
    then show ?thesis by blast
  next
    case (Inr u)
    with \<open>getEligibleCryptos response = Inr cs\<close> f have "\<forall>s::'a state. ml s = m \<longrightarrow>
       detectDoubleBottom response gph s = (Inr (), s\<lparr>console := console s @ out\<rparr>)"
      by (simp add: detectDoubleBottom_def detect_body_def)
    then show ?thesis by blast
  qed
qed

lemma forCryptos_append:
  "forCryptos gph (xs @ ys) s =
     (case forCryptos gph xs s of
        (Inl e, s') \<Rightarrow> (Inl e, s')
      | (Inr u, s') \<Rightarrow> forCryptos gph ys s')"
proof (induction xs arbitrary: s)
  case Nil
  show ?case by simp
next
  case (Cons c cs)
  show ?case
  proof (cases "analyzeCrypto gph c")
    case (Inl e)
    then show ?thesis by simp
  next
    case (Inr analysis)
    then show ?thesis
      by (cases analysis) (simp_all add: Cons.IH Let_def split: prod.splits)
  qed
qed

lemma eligible_example:
  "getEligibleCryptos example_response = Inr ([good_crypto] @ bad_crypto # [good_crypto])"
  by (simp add: getEligibleCryptos_def example_response_def CONFIG_def small_crypto_def
      good_crypto_def bad_crypto_def)

lemma validate_flat: "validate flat_prices (findBottoms flat_prices) = Some flat_pattern"
proof -
  have n: "calculateNeckline flat_prices \<lparr>timestamp = 25920000000, price = 100, index = 10\<rparr>
      \<lparr>timestamp = 28512000000, price = 100, index = 11\<rparr> = Num 100"
    by (simp add: calculateNeckline_def slice_def flat_prices_def)
  show ?thesis
    unfolding findBottoms_flat
    using validate_last_two [of flat_prices "[]" "\<lparr>timestamp = 25920000000, price = 100, index = 10\<rparr>"
        "\<lparr>timestamp = 28512000000, price = 100, index = 11\<rparr>"]
    by (simp add: n js_div_def flat_pattern_def)
qed

lemma analyze_good: "analyzeCrypto example_history good_crypto = Inr (Some flat_pattern)"
  by (simp add: analyzeCrypto_def example_history_def good_crypto_def validate_flat)

lemma analyze_bad: "analyzeCrypto example_history bad_crypto = Inl ''fetch failed''"
  by (simp add: analyzeCrypto_def example_history_def bad_crypto_def)

lemma alert_good:
  "sendAlert good_crypto flat_pattern (predict new_MLPredictor flat_pattern) s =
     (good_alert, s\<lparr>console := console s @ [Log good_alert]\<rparr>)"
  by (simp add: sendAlert_def Let_def good_alert_def alertTier_def js_ge_def predict_def
      new_MLPredictor_def flat_pattern_def good_crypto_def)

lemma forCryptos_good:
  "ml s = new_MLPredictor \<Longrightarrow>
   forCryptos example_history [good_crypto] s = (Inr (), s\<lparr>console := console s @ [Log good_alert]\<rparr>)"
  by (simp add: analyze_good alert_good)

text \<open>
  Claim C9. A detection cycle is a function of the market data, the price histories and
  the learning records: two runs on the same data, from states with the same learning
  records, end normally and write the same lines to the console (the alerts, with their
  pattern, alert type and confidence, and the error if there is one), and neither run
  changes the learning records.
\<close>

theorem detectDoubleBottom_deterministic:
  assumes "ml s = ml t"
  shows "\<exists>out. detectDoubleBottom response gph s = (Inr (), s\<lparr>console := console s @ out\<rparr>) \<and>
               detectDoubleBottom response gph t = (Inr (), t\<lparr>console := console t @ out\<rparr>) \<and>
               ml (snd (detectDoubleBottom response gph s)) = ml s \<and>
               ml (snd (detectDoubleBottom response gph t)) = ml t"
proof -
  obtain out where o: "\<And>u::'a state. ml u = ml s \<Longrightarrow>
      detectDoubleBottom response gph u = (Inr (), u\<lparr>console := console u @ out\<rparr>)"
    using detectDoubleBottom_out [of "ml s" response gph] by blast
  have "detectDoubleBottom response gph s = (Inr (), s\<lparr>console := console s @ out\<rparr>)"
    by (rule o) simp
  moreover have "detectDoubleBottom response gph t = (Inr (), t\<lparr>console := console t @ out\<rparr>)"
    by (rule o) (simp add: assms)
  ultimately show ?thesis by (intro exI [of _ out]) simp
qed

theorem detectDoubleBottom_deterministic_witness:
  "ml empty_state = ml (empty_state\<lparr>console := [Log good_alert, Error ''fetch failed'']\<rparr>) \<and>
   detectDoubleBottom example_response example_history empty_state =
     (Inr (), empty_state\<lparr>console := [Log good_alert, Error ''fetch failed'']\<rparr>) \<and>
   detectDoubleBottom example_response example_history
       (empty_state\<lparr>console := [Log good_alert, Error ''fetch failed'']\<rparr>) =
     (Inr (), empty_state\<lparr>console := [Log good_alert, Error ''fetch failed'',
                                          Log good_alert, Error ''fetch failed'']\<rparr>)"
proof -
  let ?s1 = "empty_state\<lparr>console := [Log good_alert, Error ''fetch failed'']\<rparr>"
  have m: "ml empty_state = ml ?s1" by simp
  have f: "forCryptos example_history ([good_crypto] @ bad_crypto # [good_crypto]) empty_state =
      (Inl ''fetch failed'', empty_state\<lparr>console := [Log good_alert]\<rparr>)"
  proof -
    have g: "forCryptos example_history [good_crypto] empty_state =
        (Inr (), empty_state\<lparr>console := [Log good_alert]\<rparr>)"
      using forCryptos_good [of empty_state] by (simp add: empty_state_def)
    show ?thesis
      unfolding forCryptos_append g by (simp add: analyze_bad)
  qed
  have r1: "detectDoubleBottom example_response example_history empty_state = (Inr (), ?s1)"
    using f by (simp add: detectDoubleBottom_def detect_body_def eligible_example)
  obtain out where
    a: "detectDoubleBottom example_response example_history empty_state =
          (Inr (), empty_state\<lparr>console := console empty_state @ out\<rparr>)" and
    b: "detectDoubleBottom example_response example_history ?s1 =
          (Inr (), ?s1\<lparr>console := console ?s1 @ out\<rparr>)"
    using detectDoubleBottom_deterministic [OF m, of example_response example_history] by blast
  from a r1 have "console (empty_state\<lparr>console := console empty_state @ out\<rparr>) = console ?s1"
    by simp
  then have "out = [Log good_alert, Error ''fetch failed'']"
    by (simp add: empty_state_def)
  with b have "detectDoubleBottom example_response example_history ?s1 =
     (Inr (), empty_state\<lparr>console := [Log good_alert, Error ''fetch failed'',
                                          Log good_alert, Error ''fetch failed'']\<rparr>)"
    by simp
  with m r1 show ?thesis by blast
qed

text \<open>
  Claim C10. \<^verbatim>\<open>detectDoubleBottom\<close> always ends normally. When the analysis of an eligible
  asset raises an error after the assets before it were processed, the cycle ends there:
  the state is the one those earlier assets left, with the error logged as the last line
  of the console, whatever assets come later in the list.
\<close>

theorem detectDoubleBottom_aborts:
  "fst (detectDoubleBottom response gph s) = Inr () \<and>
   (getEligibleCryptos response = Inr (before @ c # later) \<and>
    forCryptos gph before s = (Inr (), s') \<and> analyzeCrypto gph c = Inl e \<longrightarrow>
      detectDoubleBottom response gph s = (Inr (), s'\<lparr>console := console s' @ [Error e]\<rparr>))"
proof
  show "fst (detectDoubleBottom response gph s) = Inr ()"
    by (simp add: detectDoubleBottom_def split: prod.splits sum.splits)
  show "getEligibleCryptos response = Inr (before @ c # later) \<and>
    forCryptos gph before s = (Inr (), s') \<and> analyzeCrypto gph c = Inl e \<longrightarrow>
      detectDoubleBottom response gph s = (Inr (), s'\<lparr>console := console s' @ [Error e]\<rparr>)"
    by (simp add: detectDoubleBottom_def detect_body_def forCryptos_append)
qed

theorem detectDoubleBottom_aborts_witness:
  "getEligibleCryptos example_response = Inr ([good_crypto] @ bad_crypto # [good_crypto]) \<and>
   forCryptos example_history [good_crypto] empty_state =
     (Inr (), empty_state\<lparr>console := [Log good_alert]\<rparr>) \<and>
   analyzeCrypto example_history bad_crypto = Inl ''fetch failed'' \<and>
   detectDoubleBottom example_response example_history empty_state =
     (Inr (), \<lparr>console = [Log good_alert, Error ''fetch failed''], ml = new_MLPredictor\<rparr>)"
proof -
  have f: "forCryptos example_history [good_crypto] empty_state =
     (Inr (), empty_state\<lparr>console := [Log good_alert]\<rparr>)"
    using forCryptos_good [of empty_state] by (simp add: empty_state_def)
  from detectDoubleBottom_aborts [of example_response example_history empty_state "[good_crypto]"
      bad_crypto "[good_crypto]" "empty_state\<lparr>console := [Log good_alert]\<rparr>" "''fetch failed''"]
    eligible_example f analyze_bad
  have "detectDoubleBottom example_response example_history empty_state =
     (Inr (), (empty_state\<lparr>console := [Log good_alert]\<rparr>)\<lparr>console :=
        console (empty_state\<lparr>console := [Log good_alert]\<rparr>) @ [Error ''fetch failed'']\<rparr>)"
    by blast
  then have "detectDoubleBottom example_response example_history empty_state =
     (Inr (), \<lparr>console = [Log good_alert, Error ''fetch failed''], ml = new_MLPredictor\<rparr>)"
    by (simp add: empty_state_def)
  with eligible_example f analyze_bad show ?thesis by blast
qed

end
